theory Spec2Isabelle
  imports Main "HOL-Library.Word"
begin

section \<open>Serial command handler of the minipad firmware\<close>

text \<open>
  The repository holds two versions of \<^verbatim>\<open>SerialHandler\<close>: the current one
  (\<^verbatim>\<open>src/unnamed/part_000\<close>, commands \<^verbatim>\<open>hkey\<close>/\<^verbatim>\<open>dkey\<close>) and an older one
  (\<^verbatim>\<open>src/src/handlers/serial_handler.cpp\<close>, commands \<^verbatim>\<open>key\<close>/\<^verbatim>\<open>dkey\<close>), called
  the legacy variant below. Both are embedded: every \<^verbatim>\<open>void\<close> member function becomes a
  function from the state it mutates to the new state.
\<close>

subsection \<open>Build-time constants\<close>

text \<open>
  \<^verbatim>\<open>platformio.ini\<close> builds with \<^verbatim>\<open>-DHE_KEYS=3 -DDIGITAL_KEYS=18 -DDEV=1\<close>.
\<close>

definition HE_KEYS :: nat where
  "HE_KEYS = 3"

definition DIGITAL_KEYS :: nat where
  "DIGITAL_KEYS = 18"

definition DEV :: bool where
  "DEV = True"

text \<open>
  The macros of \<^verbatim>\<open>definitions.hpp\<close> are used by the handler, but the header is not part
  of the sources at hand, so their values are parameters of the model. They are integer
  macros (\<^verbatim>\<open>get\<close> prints each of them with \<^verbatim>\<open>%d\<close>), hence every comparison of a
  \<^verbatim>\<open>uint16_t\<close> with them, and every difference of two \<^verbatim>\<open>uint16_t\<close>, is computed in
  \<^verbatim>\<open>int\<close> after integer promotion: no wrap-around happens in the checks of the setters.
\<close>

record definitions =
  FIRMWARE_VERSION :: string
  HYSTERESIS_TOLERANCE :: int
  RAPID_TRIGGER_TOLERANCE :: int
  TRAVEL_DISTANCE_IN_0_01MM :: int
  ANALOG_RESOLUTION :: nat

subsection \<open>Data model\<close>

text \<open>
  \<^verbatim>\<open>key_char\<close> and \<^verbatim>\<open>key_hid\<close> of the current version take a \<^verbatim>\<open>Key &\<close> and are
  called with hall effect keys and with digital keys alike: \<^verbatim>\<open>Key\<close> is the common base
  of both, an extensible record here. The fields are the ones the handler reads and
  writes; the numeric fields receive \<^verbatim>\<open>uint16_t\<close> and \<^verbatim>\<open>uint8_t\<close> arguments unchanged.
\<close>

record Key =
  index :: "8 word"
  keyChar :: "8 word"
  hidEnabled :: bool

record HEKey = Key +
  rapidTrigger :: bool
  continuousRapidTrigger :: bool
  rapidTriggerUpSensitivity :: "16 word"
  rapidTriggerDownSensitivity :: "16 word"
  lowerHysteresis :: "16 word"
  upperHysteresis :: "16 word"

text \<open>
  In the current version the calibration points live in the runtime state of the keypad
  handler, next to the last readings.
\<close>

record HEKeyState =
  lastSensorValue :: "16 word"
  lastMappedValue :: "16 word"
  restPosition :: "16 word"
  downPosition :: "16 word"

text \<open>
  In the legacy variant \<^verbatim>\<open>HEKey\<close> itself carries \<^verbatim>\<open>restPosition\<close> and
  \<^verbatim>\<open>downPosition\<close>, next to the same fields as above.
\<close>

record LegacyHEKey = HEKey +
  restPosition :: "16 word"
  downPosition :: "16 word"

text \<open>
  The key arrays have a size fixed at build time; they are functions from the array index,
  of which the handler only ever touches the indices below \<^const>\<open>HE_KEYS\<close> and
  \<^const>\<open>DIGITAL_KEYS\<close>. The configuration is polymorphic in the hall effect key so that
  both versions share it.
\<close>

record 'k Configuration =
  name :: string
  heKeys :: "nat \<Rightarrow> 'k"
  digitalKeys :: "nat \<Rightarrow> Key"

text \<open>
  Everything the handler can change: the configuration of the config controller, the
  output mode and key states of the keypad handler, the lines written to the serial port
  (oldest first, without the line terminator), the configuration last written by
  \<^verbatim>\<open>saveConfig\<close>, and whether the board was sent to its bootloader.
\<close>

record 'k device =
  config :: "'k Configuration"
  outputMode :: bool
  heKeyStates :: "nat \<Rightarrow> HEKeyState"
  serial :: "string list"
  stored :: "'k Configuration option"
  bootloader :: bool

subsection \<open>Library functions\<close>

text \<open>
  \<^verbatim>\<open>atoi\<close> of the C library: leading white space, an optional sign, then the longest run
  of decimal digits; \<open>0\<close> when there is none. The result is an unbounded integer here
  (the C function is undefined beyond the range of \<^verbatim>\<open>int\<close>).
\<close>

definition isspace :: "char \<Rightarrow> bool" where
  "isspace c = (of_char c \<in> {32, 9, 10, 11, 12, 13 :: nat})"

definition isdigit :: "char \<Rightarrow> bool" where
  "isdigit c = (48 \<le> (of_char c :: nat) \<and> (of_char c :: nat) \<le> 57)"

fun digits_value :: "int \<Rightarrow> string \<Rightarrow> int" where
  "digits_value acc [] = acc"
| "digits_value acc (c # cs) =
     (if isdigit c then digits_value (10 * acc + (of_char c - 48)) cs else acc)"

definition atoi :: "string \<Rightarrow> int" where
  "atoi s =
     (case dropWhile isspace s of
        [] \<Rightarrow> 0
      | c # cs \<Rightarrow>
          if c = CHR ''-'' then - digits_value 0 cs
          else if c = CHR ''+'' then digits_value 0 cs
          else digits_value 0 (c # cs))"

text \<open>\<^verbatim>\<open>printf\<close> with \<^verbatim>\<open>%d\<close>: the decimal digits, with a minus sign when negative.\<close>

fun dec_nat :: "nat \<Rightarrow> string" where
  "dec_nat n =
     (if n < 10 then [''0123456789'' ! n]
      else dec_nat (n div 10) @ [''0123456789'' ! (n mod 10)])"

declare dec_nat.simps [simp del]

definition dec :: "int \<Rightarrow> string" where
  "dec i = (if i < 0 then CHR ''-'' # dec_nat (nat (- i)) else dec_nat (nat i))"

definition of_bool_int :: "bool \<Rightarrow> int" where
  "of_bool_int b = (if b then 1 else 0)"

text \<open>\<^verbatim>\<open>strstr(s, p) == s\<close>: the string \<open>s\<close> starts with \<open>p\<close>.\<close>

definition starts_with :: "string \<Rightarrow> string \<Rightarrow> bool" where
  "starts_with s p = (take (length p) s = p)"

text \<open>
  The two members of \<^verbatim>\<open>StringHelper\<close> that the handler calls are defined in
  \<^verbatim>\<open>helpers/string_helper.cpp\<close>, which is not among the sources: the handler takes them
  as parameters, and what is proved about it holds for any implementation of them.
\<close>

record StringHelper =
  toLower :: "string \<Rightarrow> string"
  getArgumentAt :: "string \<Rightarrow> char \<Rightarrow> nat \<Rightarrow> string"

subsection \<open>Macros of the handler\<close>

definition isEqual :: "string \<Rightarrow> string \<Rightarrow> bool" where
  "isEqual str1 str2 = (str1 = str2)"

definition isTrue :: "string \<Rightarrow> bool" where
  "isTrue str = (isEqual str ''1'' \<or> isEqual str ''true'')"

subsection \<open>Setters of the current version\<close>

definition hkey_rt :: "HEKey \<Rightarrow> bool \<Rightarrow> HEKey" where
  "hkey_rt key state = key\<lparr>rapidTrigger := state\<rparr>"

definition hkey_crt :: "HEKey \<Rightarrow> bool \<Rightarrow> HEKey" where
  "hkey_crt key state = key\<lparr>continuousRapidTrigger := state\<rparr>"

definition hkey_rtus :: "definitions \<Rightarrow> HEKey \<Rightarrow> 16 word \<Rightarrow> HEKey" where
  "hkey_rtus d key v =
     (if uint v \<ge> RAPID_TRIGGER_TOLERANCE d \<and> uint v \<le> TRAVEL_DISTANCE_IN_0_01MM d
      then key\<lparr>rapidTriggerUpSensitivity := v\<rparr> else key)"

definition hkey_rtds :: "definitions \<Rightarrow> HEKey \<Rightarrow> 16 word \<Rightarrow> HEKey" where
  "hkey_rtds d key v =
     (if uint v \<ge> RAPID_TRIGGER_TOLERANCE d \<and> uint v \<le> TRAVEL_DISTANCE_IN_0_01MM d
      then key\<lparr>rapidTriggerDownSensitivity := v\<rparr> else key)"

definition hkey_lh :: "definitions \<Rightarrow> HEKey \<Rightarrow> 16 word \<Rightarrow> HEKey" where
  "hkey_lh d key v =
     (if uint (upperHysteresis key) - uint v \<ge> HYSTERESIS_TOLERANCE d
      then key\<lparr>lowerHysteresis := v\<rparr> else key)"

definition hkey_uh :: "definitions \<Rightarrow> HEKey \<Rightarrow> 16 word \<Rightarrow> HEKey" where
  "hkey_uh d key v =
     (if uint v - uint (lowerHysteresis key) \<ge> HYSTERESIS_TOLERANCE d
         \<and> TRAVEL_DISTANCE_IN_0_01MM d - uint v \<ge> HYSTERESIS_TOLERANCE d
      then key\<lparr>upperHysteresis := v\<rparr> else key)"

definition key_char :: "'a Key_scheme \<Rightarrow> 8 word \<Rightarrow> 'a Key_scheme" where
  "key_char key c = key\<lparr>keyChar := c\<rparr>"

definition key_hid :: "'a Key_scheme \<Rightarrow> bool \<Rightarrow> 'a Key_scheme" where
  "key_hid key state = key\<lparr>hidEnabled := state\<rparr>"

subsection \<open>Setters of the legacy variant\<close>

definition key_rt :: "LegacyHEKey \<Rightarrow> bool \<Rightarrow> LegacyHEKey" where
  "key_rt key state = key\<lparr>rapidTrigger := state\<rparr>"

definition key_crt :: "LegacyHEKey \<Rightarrow> bool \<Rightarrow> LegacyHEKey" where
  "key_crt key state = key\<lparr>continuousRapidTrigger := state\<rparr>"

definition key_rtus :: "definitions \<Rightarrow> LegacyHEKey \<Rightarrow> 16 word \<Rightarrow> LegacyHEKey" where
  "key_rtus d key v =
     (if uint v \<ge> RAPID_TRIGGER_TOLERANCE d \<and> uint v \<le> TRAVEL_DISTANCE_IN_0_01MM d
      then key\<lparr>rapidTriggerUpSensitivity := v\<rparr> else key)"

definition key_rtds :: "definitions \<Rightarrow> LegacyHEKey \<Rightarrow> 16 word \<Rightarrow> LegacyHEKey" where
  "key_rtds d key v =
     (if uint v \<ge> RAPID_TRIGGER_TOLERANCE d \<and> uint v \<le> TRAVEL_DISTANCE_IN_0_01MM d
      then key\<lparr>rapidTriggerDownSensitivity := v\<rparr> else key)"

definition key_lh :: "definitions \<Rightarrow> LegacyHEKey \<Rightarrow> 16 word \<Rightarrow> LegacyHEKey" where
  "key_lh d key v =
     (if uint (upperHysteresis key) - uint v \<ge> HYSTERESIS_TOLERANCE d
      then key\<lparr>lowerHysteresis := v\<rparr> else key)"

definition key_uh :: "definitions \<Rightarrow> LegacyHEKey \<Rightarrow> 16 word \<Rightarrow> LegacyHEKey" where
  "key_uh d key v =
     (if uint v - uint (lowerHysteresis key) \<ge> HYSTERESIS_TOLERANCE d
         \<and> TRAVEL_DISTANCE_IN_0_01MM d - uint v \<ge> HYSTERESIS_TOLERANCE d
      then key\<lparr>upperHysteresis := v\<rparr> else key)"

text \<open>The legacy \<^verbatim>\<open>key_char\<close> (on \<^verbatim>\<open>HEKey &\<close>) only stores lowercase letters.\<close>

definition key_char_legacy :: "LegacyHEKey \<Rightarrow> 8 word \<Rightarrow> LegacyHEKey" where
  "key_char_legacy key c =
     (if uint c \<ge> 97 \<and> uint c \<le> 122 then key\<lparr>keyChar := c\<rparr> else key)"

text \<open>
  \<^verbatim>\<open>value <= pow(2, ANALOG_RESOLUTION) - 1\<close> compares in \<^verbatim>\<open>double\<close>, which is exact on
  these integers.
\<close>

definition key_rest :: "definitions \<Rightarrow> LegacyHEKey \<Rightarrow> 16 word \<Rightarrow> LegacyHEKey" where
  "key_rest d key v =
     (if uint v > uint (LegacyHEKey.downPosition key) \<and> uint v \<le> 2 ^ ANALOG_RESOLUTION d - 1
      then key\<lparr>LegacyHEKey.restPosition := v\<rparr> else key)"

definition key_down :: "LegacyHEKey \<Rightarrow> 16 word \<Rightarrow> LegacyHEKey" where
  "key_down key v =
     (if uint v < uint (LegacyHEKey.restPosition key)
      then key\<lparr>LegacyHEKey.downPosition := v\<rparr> else key)"

definition key_hid_legacy :: "LegacyHEKey \<Rightarrow> bool \<Rightarrow> LegacyHEKey" where
  "key_hid_legacy key state = key\<lparr>hidEnabled := state\<rparr>"

subsection \<open>Global commands\<close>

definition boot :: "'k device \<Rightarrow> 'k device" where
  "boot s = s\<lparr>bootloader := True\<rparr>"

definition save :: "'k device \<Rightarrow> 'k device" where
  "save s = s\<lparr>stored := Some (config s)\<rparr>"

definition print :: "string \<Rightarrow> 'k device \<Rightarrow> 'k device" where
  "print line s = s\<lparr>serial := serial s @ [line]\<rparr>"

text \<open>
  \<^verbatim>\<open>name\<close>, the same in both versions (one copies with \<^verbatim>\<open>memcpy\<close>, the other with
  \<^verbatim>\<open>strcpy\<close>). The function is called \<open>SerialHandler_name\<close> since \<open>name\<close> is the
  field it writes.
\<close>

definition SerialHandler_name :: "string \<Rightarrow> 'k device \<Rightarrow> 'k device" where
  "SerialHandler_name n s =
     (if length n \<ge> 1 \<and> length n \<le> 128
      then s\<lparr>config := (config s)\<lparr>name := n\<rparr>\<rparr> else s)"

definition echo :: "string \<Rightarrow> 'k device \<Rightarrow> 'k device" where
  "echo input s = print input s"

text \<open>The line \<^verbatim>\<open>"OUT hkey%d=%d %d"\<close> for one key.\<close>

definition HEKeyOutput :: "HEKey device \<Rightarrow> HEKey \<Rightarrow> string" where
  "HEKeyOutput s key =
     ''OUT hkey'' @ dec (uint (index key) + 1) @ ''=''
       @ dec (uint (lastSensorValue (heKeyStates s (unat (index key))))) @ '' ''
       @ dec (uint (lastMappedValue (heKeyStates s (unat (index key)))))"

definition printHEKeyOutput :: "HEKey \<Rightarrow> HEKey device \<Rightarrow> HEKey device" where
  "printHEKeyOutput key s = print (HEKeyOutput s key) s"

definition out :: "bool \<Rightarrow> bool \<Rightarrow> HEKey device \<Rightarrow> HEKey device" where
  "out single state s =
     (if single
      then fold (\<lambda>i s'. printHEKeyOutput (heKeys (config s') i) s') [0..<HE_KEYS] s
      else s\<lparr>outputMode := state\<rparr>)"

definition out_legacy :: "bool \<Rightarrow> LegacyHEKey device \<Rightarrow> LegacyHEKey device" where
  "out_legacy state s = s\<lparr>outputMode := state\<rparr>"

definition get_hkey_lines :: "HEKey device \<Rightarrow> HEKey \<Rightarrow> string list" where
  "get_hkey_lines s key =
     (let n = dec (uint (index key) + 1); st = heKeyStates s (unat (index key)) in
      [''GET hkey'' @ n @ ''.rt='' @ dec (of_bool_int (rapidTrigger key)),
       ''GET hkey'' @ n @ ''.crt='' @ dec (of_bool_int (continuousRapidTrigger key)),
       ''GET hkey'' @ n @ ''.rtus='' @ dec (uint (rapidTriggerUpSensitivity key)),
       ''GET hkey'' @ n @ ''.rtds='' @ dec (uint (rapidTriggerDownSensitivity key)),
       ''GET hkey'' @ n @ ''.lh='' @ dec (uint (lowerHysteresis key)),
       ''GET hkey'' @ n @ ''.uh='' @ dec (uint (upperHysteresis key)),
       ''GET hkey'' @ n @ ''.char='' @ dec (uint (keyChar key)),
       ''GET hkey'' @ n @ ''.rest='' @ dec (uint (HEKeyState.restPosition st)),
       ''GET hkey'' @ n @ ''.down='' @ dec (uint (HEKeyState.downPosition st)),
       ''GET hkey'' @ n @ ''.hid='' @ dec (of_bool_int (hidEnabled key))])"

definition get_dkey_lines :: "Key \<Rightarrow> string list" where
  "get_dkey_lines key =
     (let n = dec (uint (index key) + 1) in
      [''GET dkey'' @ n @ ''.char='' @ dec (uint (keyChar key)),
       ''GET dkey'' @ n @ ''.hid='' @ dec (of_bool_int (hidEnabled key))])"

definition get :: "definitions \<Rightarrow> HEKey device \<Rightarrow> HEKey device" where
  "get d s =
     s\<lparr>serial := serial s @
        [''GET version='' @ FIRMWARE_VERSION d @ (if DEV then ''-dev'' else []),
         ''GET hkeys='' @ dec (int HE_KEYS),
         ''GET dkeys='' @ dec (int DIGITAL_KEYS),
         ''GET name='' @ name (config s),
         ''GET htol='' @ dec (HYSTERESIS_TOLERANCE d),
         ''GET rtol='' @ dec (RAPID_TRIGGER_TOLERANCE d),
         ''GET trdt='' @ dec (TRAVEL_DISTANCE_IN_0_01MM d),
         ''GET ares='' @ dec (int (ANALOG_RESOLUTION d))]
        @ concat (map (\<lambda>i. get_hkey_lines s (heKeys (config s) i)) [0..<HE_KEYS])
        @ concat (map (\<lambda>i. get_dkey_lines (digitalKeys (config s) i)) [0..<DIGITAL_KEYS])
        @ [''GET END'']\<rparr>"

text \<open>
  What the legacy variant needs from outside the source file: the \<^verbatim>\<open>DEBUG\<close> macro; the
  bytes that follow the terminator of the input buffer (the legacy handler starts the
  parameters one byte after the command even when the line ends there); what \<^verbatim>\<open>printf\<close>
  makes of an integer passed for \<^verbatim>\<open>%s\<close> (in \<^verbatim>\<open>get\<close>, undefined in C); and the setters
  of digital keys, \<^verbatim>\<open>dkey_char\<close> and \<^verbatim>\<open>dkey_hid\<close>, which the file calls but does not
  define.
\<close>

record legacy_env =
  DEBUG :: bool
  beyond_terminator :: string
  printf_s_of_int :: "int \<Rightarrow> string"
  dkey_char :: "Key \<Rightarrow> int \<Rightarrow> Key"
  dkey_hid :: "Key \<Rightarrow> bool \<Rightarrow> Key"

definition get_key_lines_legacy :: "LegacyHEKey \<Rightarrow> string list" where
  "get_key_lines_legacy key =
     (let n = dec (uint (index key) + 1) in
      [''GET key'' @ n @ ''.rt='' @ dec (of_bool_int (rapidTrigger key)),
       ''GET key'' @ n @ ''.crt='' @ dec (of_bool_int (continuousRapidTrigger key)),
       ''GET key'' @ n @ ''.rtus='' @ dec (uint (rapidTriggerUpSensitivity key)),
       ''GET key'' @ n @ ''.rtds='' @ dec (uint (rapidTriggerDownSensitivity key)),
       ''GET key'' @ n @ ''.lh='' @ dec (uint (lowerHysteresis key)),
       ''GET key'' @ n @ ''.uh='' @ dec (uint (upperHysteresis key)),
       ''GET key'' @ n @ ''.key='' @ dec (uint (keyChar key)),
       ''GET key'' @ n @ ''.rest='' @ dec (uint (LegacyHEKey.restPosition key)),
       ''GET key'' @ n @ ''.down='' @ dec (uint (LegacyHEKey.downPosition key)),
       ''GET key'' @ n @ ''.hid='' @ dec (of_bool_int (hidEnabled key))])"

definition get_legacy ::
  "legacy_env \<Rightarrow> definitions \<Rightarrow> LegacyHEKey device \<Rightarrow> LegacyHEKey device" where
  "get_legacy e d s =
     s\<lparr>serial := serial s @
        [''GET version='' @ FIRMWARE_VERSION d @ (if DEBUG e then ''-dev'' else []),
         ''GET hkeys='' @ printf_s_of_int e (int HE_KEYS),
         ''GET dkeys='' @ printf_s_of_int e (int DIGITAL_KEYS),
         ''GET name='' @ name (config s),
         ''GET htol='' @ dec (HYSTERESIS_TOLERANCE d),
         ''GET rtol='' @ dec (RAPID_TRIGGER_TOLERANCE d),
         ''GET trdt='' @ dec (TRAVEL_DISTANCE_IN_0_01MM d)]
        @ concat (map (\<lambda>i. get_key_lines_legacy (heKeys (config s) i)) [0..<HE_KEYS])
        @ [''GET END'']\<rparr>"

subsection \<open>Key commands\<close>

text \<open>
  A block of the handler either returns from the handler or falls through to the next
  block.
\<close>

datatype 's flow = Return 's | Continue 's

text \<open>
  The loop \<^verbatim>\<open>for (uint8_t i = 0; i < n; i++) { Key &key = keys[i]; ... }\<close>, where
  \<^verbatim>\<open>keys\<close> points at element \<open>first\<close> of the array: \<open>body\<close> is applied in place to the
  elements \<open>first, ..., first + n - 1\<close>.
\<close>

definition for_keys :: "nat \<Rightarrow> nat \<Rightarrow> ('k \<Rightarrow> 'k) \<Rightarrow> (nat \<Rightarrow> 'k) \<Rightarrow> (nat \<Rightarrow> 'k)" where
  "for_keys first n body keys =
     fold (\<lambda>i ks. ks(first + i := body (ks (first + i)))) [0..<n] keys"

text \<open>The argument of \<^verbatim>\<open>char\<close>: the character itself, or the integer.\<close>

definition char_arg :: "string \<Rightarrow> int" where
  "char_arg arg0 = (if length arg0 = 1 then int (of_char (arg0 ! 0)) else atoi arg0)"

definition hkey_setting :: "definitions \<Rightarrow> string \<Rightarrow> string \<Rightarrow> HEKey \<Rightarrow> HEKey" where
  "hkey_setting d setting arg0 key =
     (if isEqual setting ''rt'' then hkey_rt key (isTrue arg0)
      else if isEqual setting ''crt'' then hkey_crt key (isTrue arg0)
      else if isEqual setting ''rtus'' then hkey_rtus d key (word_of_int (atoi arg0))
      else if isEqual setting ''rtds'' then hkey_rtds d key (word_of_int (atoi arg0))
      else if isEqual setting ''lh'' then hkey_lh d key (word_of_int (atoi arg0))
      else if isEqual setting ''uh'' then hkey_uh d key (word_of_int (atoi arg0))
      else if isEqual setting ''char'' then key_char key (word_of_int (char_arg arg0))
      else if isEqual setting ''hid'' then key_hid key (isTrue arg0)
      else key)"

definition dkey_setting :: "string \<Rightarrow> string \<Rightarrow> Key \<Rightarrow> Key" where
  "dkey_setting setting arg0 key =
     (if isEqual setting ''char'' then key_char key (word_of_int (char_arg arg0))
      else if isEqual setting ''hid'' then key_hid key (isTrue arg0)
      else key)"

text \<open>
  \<^verbatim>\<open>uint8_t keyIndex = atoi(keyStr + 4) - 1\<close>: the difference is narrowed to eight bits
  before it is compared with the number of keys.
\<close>

definition keyIndex :: "nat \<Rightarrow> string \<Rightarrow> 8 word" where
  "keyIndex prefix_len keyStr = word_of_int (atoi (drop prefix_len keyStr) - 1)"

definition hkey_block ::
  "StringHelper \<Rightarrow> definitions \<Rightarrow> string \<Rightarrow> string \<Rightarrow> HEKey device \<Rightarrow> HEKey device flow" where
  "hkey_block h d command arg0 s =
     (if starts_with command ''hkey'' then
        (let keyStr = getArgumentAt h command CHR ''.'' 0;
             setting = getArgumentAt h command CHR ''.'' 1
         in if length keyStr > 4 \<and> unat (keyIndex 4 keyStr) \<ge> HE_KEYS then Return s
            else Continue (s\<lparr>config := (config s)\<lparr>heKeys :=
                   for_keys (if length keyStr > 4 then unat (keyIndex 4 keyStr) else 0)
                            (if length keyStr > 4 then 1 else HE_KEYS)
                            (hkey_setting d setting arg0) (heKeys (config s))\<rparr>\<rparr>))
      else Continue s)"

definition dkey_block ::
  "StringHelper \<Rightarrow> string \<Rightarrow> string \<Rightarrow> 'k device \<Rightarrow> 'k device flow" where
  "dkey_block h command arg0 s =
     (if starts_with command ''dkey'' then
        (let keyStr = getArgumentAt h command CHR ''.'' 0;
             setting = getArgumentAt h command CHR ''.'' 1
         in if length keyStr > 4 \<and> unat (keyIndex 4 keyStr) \<ge> DIGITAL_KEYS then Return s
            else Continue (s\<lparr>config := (config s)\<lparr>digitalKeys :=
                   for_keys (if length keyStr > 4 then unat (keyIndex 4 keyStr) else 0)
                            (if length keyStr > 4 then 1 else DIGITAL_KEYS)
                            (dkey_setting setting arg0) (digitalKeys (config s))\<rparr>\<rparr>))
      else Continue s)"

definition key_setting_legacy ::
  "definitions \<Rightarrow> string \<Rightarrow> string \<Rightarrow> LegacyHEKey \<Rightarrow> LegacyHEKey" where
  "key_setting_legacy d setting arg0 key =
     (if isEqual setting ''rt'' then key_rt key (isTrue arg0)
      else if isEqual setting ''crt'' then key_crt key (isTrue arg0)
      else if isEqual setting ''rtus'' then key_rtus d key (word_of_int (atoi arg0))
      else if isEqual setting ''rtds'' then key_rtds d key (word_of_int (atoi arg0))
      else if isEqual setting ''lh'' then key_lh d key (word_of_int (atoi arg0))
      else if isEqual setting ''uh'' then key_uh d key (word_of_int (atoi arg0))
      else if isEqual setting ''char'' then key_char_legacy key (word_of_int (atoi arg0))
      else if isEqual setting ''rest'' then key_rest d key (word_of_int (atoi arg0))
      else if isEqual setting ''down'' then key_down key (word_of_int (atoi arg0))
      else if isEqual setting ''hid'' then key_hid_legacy key (isTrue arg0)
      else key)"

definition dkey_setting_legacy :: "legacy_env \<Rightarrow> string \<Rightarrow> string \<Rightarrow> Key \<Rightarrow> Key" where
  "dkey_setting_legacy e setting arg0 key =
     (if isEqual setting ''char'' then dkey_char e key (atoi arg0)
      else if isEqual setting ''hid'' then dkey_hid e key (isTrue arg0)
      else key)"

definition key_block_legacy ::
  "StringHelper \<Rightarrow> definitions \<Rightarrow> string \<Rightarrow> string \<Rightarrow> LegacyHEKey device
     \<Rightarrow> LegacyHEKey device flow" where
  "key_block_legacy h d command arg0 s =
     (if starts_with command ''key'' then
        (let keyStr = getArgumentAt h command CHR ''.'' 0;
             setting = getArgumentAt h command CHR ''.'' 1
         in if length keyStr > 3 \<and> unat (keyIndex 3 keyStr) \<ge> HE_KEYS then Return s
            else Continue (s\<lparr>config := (config s)\<lparr>heKeys :=
                   for_keys (if length keyStr > 3 then unat (keyIndex 3 keyStr) else 0)
                            (if length keyStr > 3 then 1 else HE_KEYS)
                            (key_setting_legacy d setting arg0) (heKeys (config s))\<rparr>\<rparr>))
      else Continue s)"

definition dkey_block_legacy ::
  "StringHelper \<Rightarrow> legacy_env \<Rightarrow> string \<Rightarrow> string \<Rightarrow> 'k device \<Rightarrow> 'k device flow" where
  "dkey_block_legacy h e command arg0 s =
     (if starts_with command ''dkey'' then
        (let keyStr = getArgumentAt h command CHR ''.'' 0;
             setting = getArgumentAt h command CHR ''.'' 1
         in if length keyStr > 4 \<and> unat (keyIndex 4 keyStr) \<ge> DIGITAL_KEYS then Return s
            else Continue (s\<lparr>config := (config s)\<lparr>digitalKeys :=
                   for_keys (if length keyStr > 4 then unat (keyIndex 4 keyStr) else 0)
                            (if length keyStr > 4 then 1 else DIGITAL_KEYS)
                            (dkey_setting_legacy e setting arg0) (digitalKeys (config s))\<rparr>\<rparr>))
      else Continue s)"

subsection \<open>The handlers\<close>

text \<open>
  The parse of a line in the current version: the first word of the lowercased input, and
  what follows it (without the blank that separates them, when there is one).
\<close>

definition command_of :: "StringHelper \<Rightarrow> string \<Rightarrow> string" where
  "command_of h line = getArgumentAt h (toLower h line) CHR '' '' 0"

definition parameters_of :: "StringHelper \<Rightarrow> string \<Rightarrow> string" where
  "parameters_of h line =
     (let parameters = drop (length (command_of h line)) (toLower h line)
      in if starts_with parameters '' '' then drop 1 parameters else parameters)"

definition arg0_of :: "StringHelper \<Rightarrow> string \<Rightarrow> string" where
  "arg0_of h line = getArgumentAt h (parameters_of h line) CHR '' '' 0"

definition global_commands ::
  "definitions \<Rightarrow> string \<Rightarrow> string \<Rightarrow> string \<Rightarrow> HEKey device \<Rightarrow> HEKey device" where
  "global_commands d command parameters arg0 s =
     (if isEqual command ''boot'' then boot s
      else if isEqual command ''save'' then save s
      else if isEqual command ''get'' then get d s
      else if isEqual command ''name'' then SerialHandler_name parameters s
      else if isEqual command ''out'' then out (isEqual arg0 []) (isTrue arg0) s
      else if DEV \<and> isEqual command ''echo'' then echo parameters s
      else s)"

definition handleSerialInput ::
  "StringHelper \<Rightarrow> definitions \<Rightarrow> string \<Rightarrow> HEKey device \<Rightarrow> HEKey device" where
  "handleSerialInput h d line s =
     (let command = command_of h line;
          parameters = parameters_of h line;
          arg0 = arg0_of h line
      in case hkey_block h d command arg0 (global_commands d command parameters arg0 s) of
           Return s' \<Rightarrow> s'
         | Continue s' \<Rightarrow>
             (case dkey_block h command arg0 s' of Return s'' \<Rightarrow> s'' | Continue s'' \<Rightarrow> s''))"

text \<open>
  The legacy variant always steps over one byte after the command:
  \<^verbatim>\<open>parameters = input + strlen(command) + 1\<close>.
\<close>

definition parameters_of_legacy :: "StringHelper \<Rightarrow> legacy_env \<Rightarrow> string \<Rightarrow> string" where
  "parameters_of_legacy h e line =
     (if length (command_of h line) < length (toLower h line)
      then drop (length (command_of h line) + 1) (toLower h line)
      else beyond_terminator e)"

definition arg0_of_legacy :: "StringHelper \<Rightarrow> legacy_env \<Rightarrow> string \<Rightarrow> string" where
  "arg0_of_legacy h e line = getArgumentAt h (parameters_of_legacy h e line) CHR '' '' 0"

definition global_commands_legacy ::
  "legacy_env \<Rightarrow> definitions \<Rightarrow> string \<Rightarrow> string \<Rightarrow> string \<Rightarrow> LegacyHEKey device
     \<Rightarrow> LegacyHEKey device" where
  "global_commands_legacy e d command parameters arg0 s =
     (if isEqual command ''boot'' then boot s
      else if isEqual command ''save'' then save s
      else if isEqual command ''get'' then get_legacy e d s
      else if isEqual command ''name'' then SerialHandler_name parameters s
      else if isEqual command ''out'' then out_legacy (isTrue arg0) s
      else if DEBUG e \<and> isEqual command ''echo'' then echo parameters s
      else s)"

definition handleSerialInput_legacy ::
  "StringHelper \<Rightarrow> legacy_env \<Rightarrow> definitions \<Rightarrow> string \<Rightarrow> LegacyHEKey device
     \<Rightarrow> LegacyHEKey device" where
  "handleSerialInput_legacy h e d line s =
     (let command = command_of h line;
          parameters = parameters_of_legacy h e line;
          arg0 = arg0_of_legacy h e line
      in case key_block_legacy h d command arg0
                (global_commands_legacy e d command parameters arg0 s) of
           Return s' \<Rightarrow> s'
         | Continue s' \<Rightarrow>
             (case dkey_block_legacy h e command arg0 s' of
                Return s'' \<Rightarrow> s'' | Continue s'' \<Rightarrow> s''))"

subsection \<open>A string helper to run the handlers with\<close>

text \<open>
  Modelled from the spec: \<^verbatim>\<open>StringHelper::toLower\<close> and
  \<^verbatim>\<open>StringHelper::getArgumentAt\<close> are not among the sources. The protocol is
  "case-insensitive (normalized to lowercase before parsing), space-separated tokens":
  \<open>toLower_model\<close> maps the letters A to Z to lowercase, and \<open>getArgumentAt_model\<close>
  returns the piece with the given number when its input is cut at every delimiter (the
  empty string when there is no such piece). They are only used to run the handlers on
  concrete lines.
\<close>

definition toLower_model :: "string \<Rightarrow> string" where
  "toLower_model str =
     map (\<lambda>c. if 65 \<le> (of_char c :: nat) \<and> (of_char c :: nat) \<le> 90
              then char_of (of_char c + 32 :: nat) else c) str"

fun getArgumentAt_model :: "string \<Rightarrow> char \<Rightarrow> nat \<Rightarrow> string" where
  "getArgumentAt_model [] delimiter n = []"
| "getArgumentAt_model (c # cs) delimiter 0 =
     (if c = delimiter then [] else c # getArgumentAt_model cs delimiter 0)"
| "getArgumentAt_model (c # cs) delimiter (Suc n) =
     (if c = delimiter then getArgumentAt_model cs delimiter n
      else getArgumentAt_model cs delimiter (Suc n))"

definition StringHelper_model :: StringHelper where
  "StringHelper_model = \<lparr>toLower = toLower_model, getArgumentAt = getArgumentAt_model\<rparr>"

subsection \<open>The legacy keys against the current ones\<close>

text \<open>
  What a legacy key and a key of the current version have in common: every field but the
  two calibration points.
\<close>

definition current_of_legacy :: "LegacyHEKey \<Rightarrow> HEKey" where
  "current_of_legacy key =
     \<lparr>index = index key, keyChar = keyChar key, hidEnabled = hidEnabled key,
      rapidTrigger = rapidTrigger key,
      continuousRapidTrigger = continuousRapidTrigger key,
      rapidTriggerUpSensitivity = rapidTriggerUpSensitivity key,
      rapidTriggerDownSensitivity = rapidTriggerDownSensitivity key,
      lowerHysteresis = lowerHysteresis key, upperHysteresis = upperHysteresis key\<rparr>"

subsection \<open>A device to run the handlers on\<close>

text \<open>
  Concrete values for the examples below: tolerances of 0.1 mm, 4 mm of travel, a 12-bit
  converter; three hall effect keys with hysteresis thresholds 100 and 300, calibrated
  between 3800 (rest) and 200 (down), bound to the letters a, b, c.
\<close>

definition example_definitions :: definitions where
  "example_definitions =
     \<lparr>FIRMWARE_VERSION = ''1.0'', HYSTERESIS_TOLERANCE = 10, RAPID_TRIGGER_TOLERANCE = 10,
      TRAVEL_DISTANCE_IN_0_01MM = 400, ANALOG_RESOLUTION = 12\<rparr>"

definition example_hekey :: "nat \<Rightarrow> HEKey" where
  "example_hekey i =
     \<lparr>index = of_nat i, keyChar = 97 + of_nat i, hidEnabled = False,
      rapidTrigger = False, continuousRapidTrigger = False,
      rapidTriggerUpSensitivity = 50, rapidTriggerDownSensitivity = 50,
      lowerHysteresis = 100, upperHysteresis = 300\<rparr>"

definition example_dkey :: "nat \<Rightarrow> Key" where
  "example_dkey i = \<lparr>index = of_nat i, keyChar = 107 + of_nat i, hidEnabled = False\<rparr>"

definition example_state :: "nat \<Rightarrow> HEKeyState" where
  "example_state i =
     \<lparr>lastSensorValue = 2048 + of_nat i, lastMappedValue = 195 + of_nat i,
      restPosition = 3800, downPosition = 200\<rparr>"

definition example_device :: "HEKey device" where
  "example_device =
     \<lparr>config = \<lparr>name = ''minipad'', heKeys = example_hekey, digitalKeys = example_dkey\<rparr>,
      outputMode = False, heKeyStates = example_state, serial = [], stored = None,
      bootloader = False\<rparr>"

definition example_legacy_key :: "nat \<Rightarrow> LegacyHEKey" where
  "example_legacy_key i =
     \<lparr>index = of_nat i, keyChar = 97 + of_nat i, hidEnabled = False,
      rapidTrigger = False, continuousRapidTrigger = False,
      rapidTriggerUpSensitivity = 50, rapidTriggerDownSensitivity = 50,
      lowerHysteresis = 100, upperHysteresis = 300,
      restPosition = 3800, downPosition = 200\<rparr>"

definition example_legacy_env :: legacy_env where
  "example_legacy_env =
     \<lparr>DEBUG = False, beyond_terminator = [], printf_s_of_int = (\<lambda>i. []),
      dkey_char = (\<lambda>key c. key), dkey_hid = (\<lambda>key state. key)\<rparr>"

definition example_legacy_device :: "LegacyHEKey device" where
  "example_legacy_device =
     \<lparr>config = \<lparr>name = ''minipad'', heKeys = example_legacy_key, digitalKeys = example_dkey\<rparr>,
      outputMode = False, heKeyStates = example_state, serial = [], stored = None,
      bootloader = False\<rparr>"

section \<open>Properties of the setters\<close>

subsection \<open>Rapid trigger sensitivities\<close>

text \<open>
  Claim C8. For every key and every 16-bit value, the setters of the rapid trigger up and
  down sensitivity store the value exactly when it lies between
  \<open>RAPID_TRIGGER_TOLERANCE\<close> and \<open>TRAVEL_DISTANCE_IN_0_01MM\<close> (both included), and
  leave the field as it was otherwise. The setters of the legacy variant do the same.
\<close>

theorem rapid_trigger_sensitivity_accepted_iff_in_range:
  "rapidTriggerUpSensitivity (hkey_rtus d key v) =
     (if RAPID_TRIGGER_TOLERANCE d \<le> uint v \<and> uint v \<le> TRAVEL_DISTANCE_IN_0_01MM d
      then v else rapidTriggerUpSensitivity key)
   \<and> rapidTriggerDownSensitivity (hkey_rtds d key v) =
     (if RAPID_TRIGGER_TOLERANCE d \<le> uint v \<and> uint v \<le> TRAVEL_DISTANCE_IN_0_01MM d
      then v else rapidTriggerDownSensitivity key)
   \<and> rapidTriggerUpSensitivity (key_rtus d lkey v) =
     (if RAPID_TRIGGER_TOLERANCE d \<le> uint v \<and> uint v \<le> TRAVEL_DISTANCE_IN_0_01MM d
      then v else rapidTriggerUpSensitivity lkey)
   \<and> rapidTriggerDownSensitivity (key_rtds d lkey v) =
     (if RAPID_TRIGGER_TOLERANCE d \<le> uint v \<and> uint v \<le> TRAVEL_DISTANCE_IN_0_01MM d
      then v else rapidTriggerDownSensitivity lkey)"
  by (simp add: hkey_rtus_def hkey_rtds_def key_rtus_def key_rtds_def)

subsection \<open>The gap between the hysteresis thresholds\<close>

text \<open>
  Claim C1. If the upper hysteresis of a key is at least \<open>HYSTERESIS_TOLERANCE\<close> above
  its lower hysteresis, this is still so after the setter of the lower or of the upper
  hysteresis has run with any 16-bit value, in the current version (\<open>key\<close>) and in the
  legacy variant (\<open>lkey\<close>); a value that would make the gap smaller is rejected and the
  key is left as it was.
\<close>

theorem hysteresis_gap_preserved:
  assumes "HYSTERESIS_TOLERANCE d \<le> uint (upperHysteresis key) - uint (lowerHysteresis key)"
    and "HYSTERESIS_TOLERANCE d \<le> uint (upperHysteresis lkey) - uint (lowerHysteresis lkey)"
  shows "HYSTERESIS_TOLERANCE d
           \<le> uint (upperHysteresis (hkey_lh d key v)) - uint (lowerHysteresis (hkey_lh d key v))
       \<and> HYSTERESIS_TOLERANCE d
           \<le> uint (upperHysteresis (hkey_uh d key v)) - uint (lowerHysteresis (hkey_uh d key v))
       \<and> HYSTERESIS_TOLERANCE d
           \<le> uint (upperHysteresis (key_lh d lkey v)) - uint (lowerHysteresis (key_lh d lkey v))
       \<and> HYSTERESIS_TOLERANCE d
           \<le> uint (upperHysteresis (key_uh d lkey v)) - uint (lowerHysteresis (key_uh d lkey v))
       \<and> (uint (upperHysteresis key) - uint v < HYSTERESIS_TOLERANCE d
            \<longrightarrow> hkey_lh d key v = key)
       \<and> (uint v - uint (lowerHysteresis key) < HYSTERESIS_TOLERANCE d
            \<longrightarrow> hkey_uh d key v = key)
       \<and> (uint (upperHysteresis lkey) - uint v < HYSTERESIS_TOLERANCE d
            \<longrightarrow> key_lh d lkey v = lkey)
       \<and> (uint v - uint (lowerHysteresis lkey) < HYSTERESIS_TOLERANCE d
            \<longrightarrow> key_uh d lkey v = lkey)"
  using assms by (simp add: hkey_lh_def hkey_uh_def key_lh_def key_uh_def)

theorem hysteresis_gap_preserved_witness:
  "HYSTERESIS_TOLERANCE example_definitions
     \<le> uint (upperHysteresis (example_hekey 0)) - uint (lowerHysteresis (example_hekey 0))
   \<and> HYSTERESIS_TOLERANCE example_definitions
     \<le> uint (upperHysteresis (example_legacy_key 0)) - uint (lowerHysteresis (example_legacy_key 0))
   \<and> hkey_lh example_definitions (example_hekey 0) 295 = example_hekey 0
   \<and> lowerHysteresis (hkey_lh example_definitions (example_hekey 0) 290) = 290
   \<and> HYSTERESIS_TOLERANCE example_definitions
     \<le> uint (upperHysteresis (hkey_uh example_definitions (example_hekey 0) 295))
       - uint (lowerHysteresis (hkey_uh example_definitions (example_hekey 0) 295))"
proof -
  have h1: "HYSTERESIS_TOLERANCE example_definitions
     \<le> uint (upperHysteresis (example_hekey 0)) - uint (lowerHysteresis (example_hekey 0))"
    by (simp add: example_definitions_def example_hekey_def)
  have h2: "HYSTERESIS_TOLERANCE example_definitions
     \<le> uint (upperHysteresis (example_legacy_key 0)) - uint (lowerHysteresis (example_legacy_key 0))"
    by (simp add: example_definitions_def example_legacy_key_def)
  have r: "uint (upperHysteresis (example_hekey 0)) - uint (295 :: 16 word)
             < HYSTERESIS_TOLERANCE example_definitions"
    by (simp add: example_definitions_def example_hekey_def)
  have a: "lowerHysteresis (hkey_lh example_definitions (example_hekey 0) 290) = 290"
    by (simp add: hkey_lh_def example_definitions_def example_hekey_def)
  from hysteresis_gap_preserved [OF h1 h2, of 295] h1 h2 r a show ?thesis
    by blast
qed

subsection \<open>Rest and down position\<close>

text \<open>
  Claim C4. If the rest position of a legacy key is above its down position, this is
  still so after \<open>key_rest\<close> or \<open>key_down\<close> has run with any 16-bit value:
  \<open>key_rest\<close> stores the value only when it is above the down position and at most
  \<open>2 ^ ANALOG_RESOLUTION - 1\<close>, \<open>key_down\<close> only when it is below the rest position,
  and a rejected value leaves the key as it was.
\<close>

theorem rest_above_down_preserved:
  assumes "uint (LegacyHEKey.downPosition lkey) < uint (LegacyHEKey.restPosition lkey)"
  shows "uint (LegacyHEKey.downPosition (key_rest d lkey v))
           < uint (LegacyHEKey.restPosition (key_rest d lkey v))
       \<and> uint (LegacyHEKey.downPosition (key_down lkey v))
           < uint (LegacyHEKey.restPosition (key_down lkey v))
       \<and> key_rest d lkey v =
           (if uint (LegacyHEKey.downPosition lkey) < uint v \<and> uint v \<le> 2 ^ ANALOG_RESOLUTION d - 1
            then lkey\<lparr>LegacyHEKey.restPosition := v\<rparr> else lkey)
       \<and> key_down lkey v =
           (if uint v < uint (LegacyHEKey.restPosition lkey)
            then lkey\<lparr>LegacyHEKey.downPosition := v\<rparr> else lkey)"
  using assms by (simp add: key_rest_def key_down_def)

theorem rest_above_down_preserved_witness:
  "uint (LegacyHEKey.downPosition (example_legacy_key 0))
     < uint (LegacyHEKey.restPosition (example_legacy_key 0))
   \<and> uint (LegacyHEKey.downPosition (key_rest example_definitions (example_legacy_key 0) 150))
     < uint (LegacyHEKey.restPosition (key_rest example_definitions (example_legacy_key 0) 150))
   \<and> uint (LegacyHEKey.downPosition (key_down (example_legacy_key 0) 150))
     < uint (LegacyHEKey.restPosition (key_down (example_legacy_key 0) 150))"
proof -
  have h: "uint (LegacyHEKey.downPosition (example_legacy_key 0))
     < uint (LegacyHEKey.restPosition (example_legacy_key 0))"
    by (simp add: example_legacy_key_def)
  from rest_above_down_preserved [OF h, of example_definitions 150] h show ?thesis
    by blast
qed

subsection \<open>The legacy setters against the current ones\<close>

text \<open>
  Claim C7. The numeric setters \<open>hkey_rtus\<close>, \<open>hkey_rtds\<close>, \<open>hkey_lh\<close>, \<open>hkey_uh\<close> of
  the current version agree with \<open>key_rtus\<close>, \<open>key_rtds\<close>, \<open>key_lh\<close>, \<open>key_uh\<close> of the
  legacy variant: on every key and every 16-bit value, running the legacy setter and then
  reading the common fields gives what the current setter gives on the common fields,
  the legacy setter leaves the key as it was exactly when the current one does, and it
  does not touch the calibration points.
\<close>

theorem numeric_setters_agree_with_legacy:
  "current_of_legacy (key_rtus d lkey v) = hkey_rtus d (current_of_legacy lkey) v
   \<and> current_of_legacy (key_rtds d lkey v) = hkey_rtds d (current_of_legacy lkey) v
   \<and> current_of_legacy (key_lh d lkey v) = hkey_lh d (current_of_legacy lkey) v
   \<and> current_of_legacy (key_uh d lkey v) = hkey_uh d (current_of_legacy lkey) v
   \<and> (key_rtus d lkey v = lkey) = (hkey_rtus d (current_of_legacy lkey) v = current_of_legacy lkey)
   \<and> (key_rtds d lkey v = lkey) = (hkey_rtds d (current_of_legacy lkey) v = current_of_legacy lkey)
   \<and> (key_lh d lkey v = lkey) = (hkey_lh d (current_of_legacy lkey) v = current_of_legacy lkey)
   \<and> (key_uh d lkey v = lkey) = (hkey_uh d (current_of_legacy lkey) v = current_of_legacy lkey)
   \<and> LegacyHEKey.restPosition (key_rtus d lkey v) = LegacyHEKey.restPosition lkey
   \<and> LegacyHEKey.downPosition (key_rtus d lkey v) = LegacyHEKey.downPosition lkey
   \<and> LegacyHEKey.restPosition (key_rtds d lkey v) = LegacyHEKey.restPosition lkey
   \<and> LegacyHEKey.downPosition (key_rtds d lkey v) = LegacyHEKey.downPosition lkey
   \<and> LegacyHEKey.restPosition (key_lh d lkey v) = LegacyHEKey.restPosition lkey
   \<and> LegacyHEKey.downPosition (key_lh d lkey v) = LegacyHEKey.downPosition lkey
   \<and> LegacyHEKey.restPosition (key_uh d lkey v) = LegacyHEKey.restPosition lkey
   \<and> LegacyHEKey.downPosition (key_uh d lkey v) = LegacyHEKey.downPosition lkey"
  by (cases lkey)
     (simp add: current_of_legacy_def key_rtus_def key_rtds_def key_lh_def key_uh_def
        hkey_rtus_def hkey_rtds_def hkey_lh_def hkey_uh_def)

section \<open>Properties of the handlers\<close>

subsection \<open>The loop over the keys and the dispatch on the command\<close>

text \<open>The loop applies its body once to each key it covers and to no other key.\<close>

lemma for_keys_apply:
  "for_keys first n body keys j =
     (if first \<le> j \<and> j < first + n then body (keys j) else keys j)"
proof (induction n arbitrary: j)
  case 0
  show ?case by (auto simp: for_keys_def)
next
  case (Suc n)
  have step: "for_keys first (Suc n) body keys =
                (for_keys first n body keys)
                  (first + n := body (for_keys first n body keys (first + n)))"
    by (simp add: for_keys_def)
  show ?case
    unfolding step using Suc.IH by auto
qed

text \<open>
  A command that starts with \<^verbatim>\<open>hkey\<close>, \<^verbatim>\<open>key\<close> or \<^verbatim>\<open>dkey\<close> is none of the global
  commands, and at most one of the key blocks handles it.
\<close>

lemma starts_with_hkey:
  "starts_with command ''hkey'' \<Longrightarrow>
   command \<noteq> ''boot'' \<and> command \<noteq> ''save'' \<and> command \<noteq> ''get'' \<and> command \<noteq> ''name''
   \<and> command \<noteq> ''out'' \<and> command \<noteq> ''echo'' \<and> \<not> starts_with command ''dkey''"
  by (cases command) (auto simp: starts_with_def)

lemma starts_with_key:
  "starts_with command ''key'' \<Longrightarrow>
   command \<noteq> ''boot'' \<and> command \<noteq> ''save'' \<and> command \<noteq> ''get'' \<and> command \<noteq> ''name''
   \<and> command \<noteq> ''out'' \<and> command \<noteq> ''echo'' \<and> \<not> starts_with command ''dkey''"
  by (cases command) (auto simp: starts_with_def)

lemma starts_with_dkey:
  "starts_with command ''dkey'' \<Longrightarrow>
   command \<noteq> ''boot'' \<and> command \<noteq> ''save'' \<and> command \<noteq> ''get'' \<and> command \<noteq> ''name''
   \<and> command \<noteq> ''out'' \<and> command \<noteq> ''echo'' \<and> \<not> starts_with command ''hkey''
   \<and> \<not> starts_with command ''key''"
  by (cases command) (auto simp: starts_with_def)

lemma global_commands_hkey:
  "starts_with command ''hkey'' \<Longrightarrow> global_commands d command parameters arg0 s = s"
  using starts_with_hkey [of command] by (simp add: global_commands_def isEqual_def)

lemma global_commands_dkey:
  "starts_with command ''dkey'' \<Longrightarrow> global_commands d command parameters arg0 s = s"
  using starts_with_dkey [of command] by (simp add: global_commands_def isEqual_def)

lemma global_commands_legacy_key:
  "starts_with command ''key'' \<Longrightarrow> global_commands_legacy e d command parameters arg0 s = s"
  using starts_with_key [of command] by (simp add: global_commands_legacy_def isEqual_def)

lemma global_commands_legacy_dkey:
  "starts_with command ''dkey'' \<Longrightarrow> global_commands_legacy e d command parameters arg0 s = s"
  using starts_with_dkey [of command] by (simp add: global_commands_legacy_def isEqual_def)

lemma dkey_block_hkey:
  "starts_with command ''hkey'' \<Longrightarrow> dkey_block h command arg0 s = Continue s"
  using starts_with_hkey [of command] by (simp add: dkey_block_def)

lemma hkey_block_dkey:
  "starts_with command ''dkey'' \<Longrightarrow> hkey_block h d command arg0 s = Continue s"
  using starts_with_dkey [of command] by (simp add: hkey_block_def)

lemma dkey_block_legacy_key:
  "starts_with command ''key'' \<Longrightarrow> dkey_block_legacy h e command arg0 s = Continue s"
  using starts_with_key [of command] by (simp add: dkey_block_legacy_def)

lemma key_block_legacy_dkey:
  "starts_with command ''dkey'' \<Longrightarrow> key_block_legacy h d command arg0 s = Continue s"
  using starts_with_dkey [of command] by (simp add: key_block_legacy_def)

lemma handleSerialInput_hkey:
  "starts_with (command_of h line) ''hkey'' \<Longrightarrow>
   handleSerialInput h d line s =
     (case hkey_block h d (command_of h line) (arg0_of h line) s of
        Return s' \<Rightarrow> s' | Continue s' \<Rightarrow> s')"
  by (simp add: handleSerialInput_def global_commands_hkey hkey_block_def dkey_block_hkey Let_def)

lemma handleSerialInput_dkey:
  "starts_with (command_of h line) ''dkey'' \<Longrightarrow>
   handleSerialInput h d line s =
     (case dkey_block h (command_of h line) (arg0_of h line) s of
        Return s' \<Rightarrow> s' | Continue s' \<Rightarrow> s')"
  by (simp add: handleSerialInput_def global_commands_dkey hkey_block_dkey)

lemma handleSerialInput_legacy_key:
  "starts_with (command_of h line) ''key'' \<Longrightarrow>
   handleSerialInput_legacy h e d line s =
     (case key_block_legacy h d (command_of h line) (arg0_of_legacy h e line) s of
        Return s' \<Rightarrow> s' | Continue s' \<Rightarrow> s')"
  by (simp add: handleSerialInput_legacy_def global_commands_legacy_key key_block_legacy_def
        dkey_block_legacy_key Let_def)

lemma handleSerialInput_legacy_dkey:
  "starts_with (command_of h line) ''dkey'' \<Longrightarrow>
   handleSerialInput_legacy h e d line s =
     (case dkey_block_legacy h e (command_of h line) (arg0_of_legacy h e line) s of
        Return s' \<Rightarrow> s' | Continue s' \<Rightarrow> s')"
  by (simp add: handleSerialInput_legacy_def global_commands_legacy_dkey key_block_legacy_dkey)

lemma handleSerialInput_global:
  "\<not> starts_with (command_of h line) ''hkey'' \<Longrightarrow> \<not> starts_with (command_of h line) ''dkey'' \<Longrightarrow>
   handleSerialInput h d line s =
     global_commands d (command_of h line) (parameters_of h line) (arg0_of h line) s"
  by (simp add: handleSerialInput_def hkey_block_def dkey_block_def)

lemma handleSerialInput_legacy_global:
  "\<not> starts_with (command_of h line) ''key'' \<Longrightarrow> \<not> starts_with (command_of h line) ''dkey'' \<Longrightarrow>
   handleSerialInput_legacy h e d line s =
     global_commands_legacy e d (command_of h line) (parameters_of_legacy h e line)
       (arg0_of_legacy h e line) s"
  by (simp add: handleSerialInput_legacy_def key_block_legacy_def dkey_block_legacy_def)

text \<open>The key blocks write to the configuration only.\<close>

lemma hkey_block_serial:
  "serial (case hkey_block h d command arg0 s of Return s' \<Rightarrow> s' | Continue s' \<Rightarrow> s')
     = serial s"
  by (simp add: hkey_block_def Let_def)

lemma key_block_legacy_serial:
  "serial (case key_block_legacy h d command arg0 s of Return s' \<Rightarrow> s' | Continue s' \<Rightarrow> s')
     = serial s"
  by (simp add: key_block_legacy_def Let_def)

text \<open>
  When the index, narrowed to eight bits, is not below the number of keys, the command
  changes nothing.
\<close>

lemma narrowed_index_out_of_range_aborts:
  "starts_with (command_of h line) ''hkey'' \<Longrightarrow>
   length (getArgumentAt h (command_of h line) CHR ''.'' 0) > 4 \<Longrightarrow>
   HE_KEYS \<le> unat (keyIndex 4 (getArgumentAt h (command_of h line) CHR ''.'' 0)) \<Longrightarrow>
   handleSerialInput h d line s = s"
  by (simp add: handleSerialInput_hkey hkey_block_def)

lemma narrowed_index_out_of_range_aborts_dkey:
  "starts_with (command_of h line) ''dkey'' \<Longrightarrow>
   length (getArgumentAt h (command_of h line) CHR ''.'' 0) > 4 \<Longrightarrow>
   DIGITAL_KEYS \<le> unat (keyIndex 4 (getArgumentAt h (command_of h line) CHR ''.'' 0)) \<Longrightarrow>
   handleSerialInput h d line s = s"
  by (simp add: handleSerialInput_dkey dkey_block_def)

lemma narrowed_index_out_of_range_aborts_legacy:
  "starts_with (command_of h line) ''key'' \<Longrightarrow>
   length (getArgumentAt h (command_of h line) CHR ''.'' 0) > 3 \<Longrightarrow>
   HE_KEYS \<le> unat (keyIndex 3 (getArgumentAt h (command_of h line) CHR ''.'' 0)) \<Longrightarrow>
   handleSerialInput_legacy h e d line s = s"
  by (simp add: handleSerialInput_legacy_key key_block_legacy_def)

text \<open>Running the model of the string helper and \<open>atoi\<close> on concrete lines.\<close>

lemmas run_parse =
  command_of_def parameters_of_def arg0_of_def parameters_of_legacy_def arg0_of_legacy_def
  StringHelper_model_def toLower_model_def starts_with_def isEqual_def isTrue_def
  keyIndex_def atoi_def isspace_def isdigit_def char_arg_def

subsection \<open>Index validation\<close>

text \<open>
  Whatever the string helper is: when the digits after \<^verbatim>\<open>hkey\<close> read 257, the command
  is applied to the first hall effect key.
\<close>

lemma index_257_is_first_key:
  assumes "starts_with (command_of h line) ''hkey''"
    and "4 < length (getArgumentAt h (command_of h line) CHR ''.'' 0)"
    and "atoi (drop 4 (getArgumentAt h (command_of h line) CHR ''.'' 0)) = 257"
  shows "heKeys (config (handleSerialInput h d line s)) 0 =
           hkey_setting d (getArgumentAt h (command_of h line) CHR ''.'' 1) (arg0_of h line)
             (heKeys (config s) 0)"
  using assms
  by (simp add: handleSerialInput_hkey hkey_block_def keyIndex_def HE_KEYS_def for_keys_apply)

text \<open>
  Claim C2. A key command with an explicit index outside the configured range should
  change no key. The handlers narrow \<open>N - 1\<close> to eight bits before they compare it with
  the number of keys, so the index 257 passes the check as index 1: on the example
  device, \<^verbatim>\<open>hkey257.rt 1\<close> switches rapid trigger on for the first hall effect key,
  \<^verbatim>\<open>dkey257.hid 1\<close> enables the first digital key, and \<^verbatim>\<open>key257.rt 1\<close> does in the
  legacy variant what \<^verbatim>\<open>hkey257.rt 1\<close> does in the current one.
\<close>

theorem index_257_changes_first_key:
  "rapidTrigger (heKeys (config example_device) 0) = False
   \<and> rapidTrigger (heKeys (config
        (handleSerialInput StringHelper_model example_definitions ''hkey257.rt 1''
           example_device)) 0) = True
   \<and> hidEnabled (digitalKeys (config example_device) 0) = False
   \<and> hidEnabled (digitalKeys (config
        (handleSerialInput StringHelper_model example_definitions ''dkey257.hid 1''
           example_device)) 0) = True
   \<and> rapidTrigger (heKeys (config example_legacy_device) 0) = False
   \<and> rapidTrigger (heKeys (config
        (handleSerialInput_legacy StringHelper_model example_legacy_env example_definitions
           ''key257.rt 1'' example_legacy_device)) 0) = True"
proof -
  have hkey: "starts_with (command_of StringHelper_model ''hkey257.rt 1'') ''hkey''"
    by (simp add: run_parse)
  have dkey: "starts_with (command_of StringHelper_model ''dkey257.hid 1'') ''dkey''"
    by (simp add: run_parse)
  have key: "starts_with (command_of StringHelper_model ''key257.rt 1'') ''key''"
    by (simp add: run_parse)
  have 1: "rapidTrigger (heKeys (config
        (handleSerialInput StringHelper_model example_definitions ''hkey257.rt 1''
           example_device)) 0)"
    unfolding handleSerialInput_hkey [OF hkey]
    by (simp add: hkey_block_def for_keys_apply hkey_setting_def hkey_rt_def HE_KEYS_def
          run_parse)
  have 2: "hidEnabled (digitalKeys (config
        (handleSerialInput StringHelper_model example_definitions ''dkey257.hid 1''
           example_device)) 0)"
    unfolding handleSerialInput_dkey [OF dkey]
    by (simp add: dkey_block_def for_keys_apply dkey_setting_def key_hid_def DIGITAL_KEYS_def
          run_parse)
  have 3: "rapidTrigger (heKeys (config
        (handleSerialInput_legacy StringHelper_model example_legacy_env example_definitions
           ''key257.rt 1'' example_legacy_device)) 0)"
    unfolding handleSerialInput_legacy_key [OF key]
    by (simp add: key_block_legacy_def for_keys_apply key_setting_legacy_def key_rt_def
          HE_KEYS_def run_parse)
  show ?thesis
    using 1 2 3
    by (simp add: example_device_def example_legacy_device_def example_hekey_def
          example_dkey_def example_legacy_key_def)
qed

subsection \<open>Rejected values\<close>

text \<open>
  Claim C3. Every setter is all or nothing: a value that fails the check of the setter
  (a rapid trigger sensitivity outside its range, a hysteresis that breaks a tolerance, a
  rest or down position that breaks the order of the two, a name that is empty or longer
  than 128 characters) leaves the key, respectively the device, exactly as it was; and a
  key command or a \<^verbatim>\<open>name\<close> command writes nothing to the serial port, whether the value
  is accepted or not.
\<close>

theorem rejected_value_changes_nothing:
  "(\<not> (RAPID_TRIGGER_TOLERANCE d \<le> uint v \<and> uint v \<le> TRAVEL_DISTANCE_IN_0_01MM d) \<longrightarrow>
      hkey_rtus d key v = key \<and> hkey_rtds d key v = key
      \<and> key_rtus d lkey v = lkey \<and> key_rtds d lkey v = lkey)
   \<and> (\<not> HYSTERESIS_TOLERANCE d \<le> uint (upperHysteresis key) - uint v \<longrightarrow>
        hkey_lh d key v = key)
   \<and> (\<not> HYSTERESIS_TOLERANCE d \<le> uint (upperHysteresis lkey) - uint v \<longrightarrow>
        key_lh d lkey v = lkey)
   \<and> (\<not> (HYSTERESIS_TOLERANCE d \<le> uint v - uint (lowerHysteresis key)
           \<and> HYSTERESIS_TOLERANCE d \<le> TRAVEL_DISTANCE_IN_0_01MM d - uint v) \<longrightarrow>
        hkey_uh d key v = key)
   \<and> (\<not> (HYSTERESIS_TOLERANCE d \<le> uint v - uint (lowerHysteresis lkey)
           \<and> HYSTERESIS_TOLERANCE d \<le> TRAVEL_DISTANCE_IN_0_01MM d - uint v) \<longrightarrow>
        key_uh d lkey v = lkey)
   \<and> (\<not> (uint (LegacyHEKey.downPosition lkey) < uint v
           \<and> uint v \<le> 2 ^ ANALOG_RESOLUTION d - 1) \<longrightarrow>
        key_rest d lkey v = lkey)
   \<and> (\<not> uint v < uint (LegacyHEKey.restPosition lkey) \<longrightarrow> key_down lkey v = lkey)
   \<and> (\<not> (1 \<le> length n \<and> length n \<le> 128) \<longrightarrow>
        SerialHandler_name n s = s \<and> SerialHandler_name n ls = ls)
   \<and> (starts_with (command_of h line) ''hkey'' \<or> command_of h line = ''name'' \<longrightarrow>
        serial (handleSerialInput h d line s) = serial s)
   \<and> (starts_with (command_of h lline) ''key'' \<or> command_of h lline = ''name'' \<longrightarrow>
        serial (handleSerialInput_legacy h e d lline ls) = serial ls)"
proof -
  have current: "serial (handleSerialInput h d line s) = serial s"
    if "starts_with (command_of h line) ''hkey'' \<or> command_of h line = ''name''"
    using that
  proof
    assume "starts_with (command_of h line) ''hkey''"
    then show ?thesis
      by (simp add: handleSerialInput_hkey hkey_block_serial)
  next
    assume c: "command_of h line = ''name''"
    then have "\<not> starts_with (command_of h line) ''hkey''"
      and "\<not> starts_with (command_of h line) ''dkey''"
      by (simp_all add: starts_with_def)
    then show ?thesis
      by (simp add: handleSerialInput_global c global_commands_def isEqual_def
            SerialHandler_name_def)
  qed
  have legacy: "serial (handleSerialInput_legacy h e d lline ls) = serial ls"
    if "starts_with (command_of h lline) ''key'' \<or> command_of h lline = ''name''"
    using that
  proof
    assume "starts_with (command_of h lline) ''key''"
    then show ?thesis
      by (simp add: handleSerialInput_legacy_key key_block_legacy_serial)
  next
    assume c: "command_of h lline = ''name''"
    then have "\<not> starts_with (command_of h lline) ''key''"
      and "\<not> starts_with (command_of h lline) ''dkey''"
      by (simp_all add: starts_with_def)
    then show ?thesis
      by (simp add: handleSerialInput_legacy_global c global_commands_legacy_def isEqual_def
            SerialHandler_name_def)
  qed
  have setters:
    "(\<not> (RAPID_TRIGGER_TOLERANCE d \<le> uint v \<and> uint v \<le> TRAVEL_DISTANCE_IN_0_01MM d) \<longrightarrow>
      hkey_rtus d key v = key \<and> hkey_rtds d key v = key
      \<and> key_rtus d lkey v = lkey \<and> key_rtds d lkey v = lkey)"
    "(\<not> HYSTERESIS_TOLERANCE d \<le> uint (upperHysteresis key) - uint v \<longrightarrow>
        hkey_lh d key v = key)"
    "(\<not> HYSTERESIS_TOLERANCE d \<le> uint (upperHysteresis lkey) - uint v \<longrightarrow>
        key_lh d lkey v = lkey)"
    "(\<not> (HYSTERESIS_TOLERANCE d \<le> uint v - uint (lowerHysteresis key)
           \<and> HYSTERESIS_TOLERANCE d \<le> TRAVEL_DISTANCE_IN_0_01MM d - uint v) \<longrightarrow>
        hkey_uh d key v = key)"
    "(\<not> (HYSTERESIS_TOLERANCE d \<le> uint v - uint (lowerHysteresis lkey)
           \<and> HYSTERESIS_TOLERANCE d \<le> TRAVEL_DISTANCE_IN_0_01MM d - uint v) \<longrightarrow>
        key_uh d lkey v = lkey)"
    "(\<not> (uint (LegacyHEKey.downPosition lkey) < uint v
           \<and> uint v \<le> 2 ^ ANALOG_RESOLUTION d - 1) \<longrightarrow>
        key_rest d lkey v = lkey)"
    "(\<not> uint v < uint (LegacyHEKey.restPosition lkey) \<longrightarrow> key_down lkey v = lkey)"
    "(\<not> (1 \<le> length n \<and> length n \<le> 128) \<longrightarrow>
        SerialHandler_name n s = s \<and> SerialHandler_name n ls = ls)"
    by (simp_all add: hkey_rtus_def hkey_rtds_def key_rtus_def key_rtds_def hkey_lh_def
          key_lh_def hkey_uh_def key_uh_def key_rest_def key_down_def SerialHandler_name_def)
  from setters current legacy show ?thesis
    by blast
qed

theorem rejected_value_changes_nothing_witness:
  "hkey_rtus example_definitions (example_hekey 0) 5000 = example_hekey 0
   \<and> hkey_lh example_definitions (example_hekey 0) 5000 = example_hekey 0
   \<and> hkey_uh example_definitions (example_hekey 0) 5000 = example_hekey 0
   \<and> key_rest example_definitions (example_legacy_key 0) 5000 = example_legacy_key 0
   \<and> key_down (example_legacy_key 0) 5000 = example_legacy_key 0
   \<and> SerialHandler_name [] example_device = example_device
   \<and> serial (handleSerialInput StringHelper_model example_definitions ''hkey1.rtus 5000''
        example_device) = serial example_device
   \<and> serial (handleSerialInput_legacy StringHelper_model example_legacy_env
        example_definitions ''key1.rest 5000'' example_legacy_device)
       = serial example_legacy_device"
proof -
  have rt: "\<not> (RAPID_TRIGGER_TOLERANCE example_definitions \<le> uint (5000 :: 16 word)
               \<and> uint (5000 :: 16 word) \<le> TRAVEL_DISTANCE_IN_0_01MM example_definitions)"
    by (simp add: example_definitions_def)
  have lh: "\<not> HYSTERESIS_TOLERANCE example_definitions
               \<le> uint (upperHysteresis (example_hekey 0)) - uint (5000 :: 16 word)"
    by (simp add: example_definitions_def example_hekey_def)
  have uh: "\<not> (HYSTERESIS_TOLERANCE example_definitions
                 \<le> uint (5000 :: 16 word) - uint (lowerHysteresis (example_hekey 0))
               \<and> HYSTERESIS_TOLERANCE example_definitions
                 \<le> TRAVEL_DISTANCE_IN_0_01MM example_definitions - uint (5000 :: 16 word))"
    by (simp add: example_definitions_def example_hekey_def)
  have rest: "\<not> (uint (LegacyHEKey.downPosition (example_legacy_key 0)) < uint (5000 :: 16 word)
                 \<and> uint (5000 :: 16 word) \<le> 2 ^ ANALOG_RESOLUTION example_definitions - 1)"
    by (simp add: example_definitions_def example_legacy_key_def)
  have down: "\<not> uint (5000 :: 16 word) < uint (LegacyHEKey.restPosition (example_legacy_key 0))"
    by (simp add: example_legacy_key_def)
  have nm: "\<not> (1 \<le> length ([] :: string) \<and> length ([] :: string) \<le> 128)"
    by simp
  have cur: "starts_with (command_of StringHelper_model ''hkey1.rtus 5000'') ''hkey''"
    by (simp add: run_parse)
  have leg: "starts_with (command_of StringHelper_model ''key1.rest 5000'') ''key''"
    by (simp add: run_parse)
  from rejected_value_changes_nothing
         [of example_definitions 5000 "example_hekey 0" "example_legacy_key 0" "[]"
             example_device example_legacy_device StringHelper_model "''hkey1.rtus 5000''"
             "''key1.rest 5000''" example_legacy_env]
       rt lh uh rest down nm cur leg
  show ?thesis
    by blast
qed

subsection \<open>The \<^verbatim>\<open>out\<close> command\<close>

lemma HEKeyOutput_print [simp]:
  "HEKeyOutput (print l s) key = HEKeyOutput s key"
  by (simp add: HEKeyOutput_def print_def)

lemma out_single:
  "out True state s =
     s\<lparr>serial := serial s @ map (\<lambda>i. HEKeyOutput s (heKeys (config s) i)) [0..<HE_KEYS]\<rparr>"
proof -
  have three: "[0..<3] = [0, Suc 0, Suc (Suc 0)]"
    by (simp add: upt_rec)
  have config_print: "config (print l t) = config t" for l and t :: "HEKey device"
    by (simp add: print_def)
  show ?thesis
    by (simp add: out_def HE_KEYS_def three printHEKeyOutput_def config_print)
       (simp add: print_def)
qed

text \<open>
  Claim C5, with the line as the code prints it. The line for a key is
  \<^verbatim>\<open>OUT hkey<N>=<raw> <mapped>\<close>, where \<open>N\<close> is the index field of the key plus one, and
  \<open>raw\<close> and \<open>mapped\<close> are the last sensor value and the last mapped value of the key
  state at that index. For every input line whose command is \<^verbatim>\<open>out\<close>: with no argument
  the handler appends this line for each of the hall effect keys, in order, and changes
  nothing else (the output mode stays as it is); with an argument it sets the output mode
  to whether the argument is \<^verbatim>\<open>1\<close> or \<^verbatim>\<open>true\<close>, and prints nothing.
\<close>

theorem out_command_prints_once_or_sets_mode:
  "HEKeyOutput s key =
     ''OUT hkey'' @ dec (uint (index key) + 1) @ ''=''
       @ dec (uint (lastSensorValue (heKeyStates s (unat (index key))))) @ '' ''
       @ dec (uint (lastMappedValue (heKeyStates s (unat (index key)))))
   \<and> (command_of h line = ''out'' \<and> arg0_of h line = [] \<longrightarrow>
        handleSerialInput h d line s =
          s\<lparr>serial := serial s @ map (\<lambda>i. HEKeyOutput s (heKeys (config s) i)) [0..<HE_KEYS]\<rparr>
        \<and> outputMode (handleSerialInput h d line s) = outputMode s)
   \<and> (command_of h line = ''out'' \<and> arg0_of h line \<noteq> [] \<longrightarrow>
        handleSerialInput h d line s = s\<lparr>outputMode := isTrue (arg0_of h line)\<rparr>
        \<and> serial (handleSerialInput h d line s) = serial s)"
proof -
  have dispatch: "handleSerialInput h d line s
                    = out (arg0_of h line = []) (isTrue (arg0_of h line)) s"
    if c: "command_of h line = ''out''"
  proof -
    from c have "\<not> starts_with (command_of h line) ''hkey''"
      and "\<not> starts_with (command_of h line) ''dkey''"
      by (simp_all add: starts_with_def)
    then show ?thesis
      by (simp add: handleSerialInput_global c global_commands_def isEqual_def)
  qed
  have single: "handleSerialInput h d line s =
          s\<lparr>serial := serial s @ map (\<lambda>i. HEKeyOutput s (heKeys (config s) i)) [0..<HE_KEYS]\<rparr>
        \<and> outputMode (handleSerialInput h d line s) = outputMode s"
    if "command_of h line = ''out''" and "arg0_of h line = []"
    using that by (simp add: dispatch out_single)
  have mode: "handleSerialInput h d line s = s\<lparr>outputMode := isTrue (arg0_of h line)\<rparr>
        \<and> serial (handleSerialInput h d line s) = serial s"
    if "command_of h line = ''out''" and "arg0_of h line \<noteq> []"
    using that by (simp add: dispatch out_def)
  from single mode show ?thesis
    by (simp add: HEKeyOutput_def)
qed

lemma example_out_lines:
  "map (\<lambda>i. HEKeyOutput example_device (heKeys (config example_device) i)) [0..<HE_KEYS]
     = [''OUT hkey1=2048 195'', ''OUT hkey2=2049 196'', ''OUT hkey3=2050 197'']"
proof -
  have three: "[0..<3] = [0, Suc 0, Suc (Suc 0)]"
    by (simp add: upt_rec)
  have digits: "dec 1 = ''1''" "dec 2 = ''2''" "dec 3 = ''3''"
    "dec 2048 = ''2048''" "dec 2049 = ''2049''" "dec 2050 = ''2050''"
    "dec 195 = ''195''" "dec 196 = ''196''" "dec 197 = ''197''"
    by (simp_all add: dec_def dec_nat.simps)
  show ?thesis
    by (simp add: HE_KEYS_def three HEKeyOutput_def example_device_def example_hekey_def
          example_state_def digits)
qed

theorem out_command_prints_once_or_sets_mode_witness:
  "command_of StringHelper_model ''out'' = ''out''
   \<and> arg0_of StringHelper_model ''out'' = []
   \<and> serial (handleSerialInput StringHelper_model example_definitions ''out'' example_device)
       = [''OUT hkey1=2048 195'', ''OUT hkey2=2049 196'', ''OUT hkey3=2050 197'']
   \<and> command_of StringHelper_model ''out true'' = ''out''
   \<and> arg0_of StringHelper_model ''out true'' \<noteq> []
   \<and> outputMode (handleSerialInput StringHelper_model example_definitions ''out true''
        example_device) = True
   \<and> serial (handleSerialInput StringHelper_model example_definitions ''out true''
        example_device) = []"
proof -
  have c1: "command_of StringHelper_model ''out'' = ''out''"
    and a1: "arg0_of StringHelper_model ''out'' = []"
    and c2: "command_of StringHelper_model ''out true'' = ''out''"
    and a2: "arg0_of StringHelper_model ''out true'' = ''true''"
    by (simp_all add: run_parse)
  have a2': "arg0_of StringHelper_model ''out true'' \<noteq> []"
    by (simp add: a2)
  have empty: "serial example_device = []"
    by (simp add: example_device_def)
  from out_command_prints_once_or_sets_mode
         [of example_device _ StringHelper_model "''out''" example_definitions] c1 a1
  have 1: "serial (handleSerialInput StringHelper_model example_definitions ''out''
                     example_device)
             = [''OUT hkey1=2048 195'', ''OUT hkey2=2049 196'', ''OUT hkey3=2050 197'']"
    by (simp add: example_out_lines empty)
  from out_command_prints_once_or_sets_mode
         [of example_device _ StringHelper_model "''out true''" example_definitions] c2 a2'
  have 2: "handleSerialInput StringHelper_model example_definitions ''out true''
             example_device = example_device\<lparr>outputMode := isTrue ''true''\<rparr>"
    by (simp add: a2)
  show ?thesis
    using c1 a1 c2 a2' 1 by (simp add: 2 isTrue_def isEqual_def empty)
qed

text \<open>
  Claim C5 as the spec words it has the line start with \<^verbatim>\<open>OUT key\<close>: on the example
  device the three lines printed by \<^verbatim>\<open>out\<close> are not the lines of that form.
\<close>

theorem out_line_is_not_OUT_key:
  "serial (handleSerialInput StringHelper_model example_definitions ''out'' example_device)
     = [''OUT hkey1=2048 195'', ''OUT hkey2=2049 196'', ''OUT hkey3=2050 197'']
   \<and> serial (handleSerialInput StringHelper_model example_definitions ''out'' example_device)
     \<noteq> [''OUT key1=2048 195'', ''OUT key2=2049 196'', ''OUT key3=2050 197'']"
proof -
  have c: "command_of StringHelper_model ''out'' = ''out''"
    and a: "arg0_of StringHelper_model ''out'' = []"
    by (simp_all add: run_parse)
  have "\<not> starts_with (command_of StringHelper_model ''out'') ''hkey''"
    and "\<not> starts_with (command_of StringHelper_model ''out'') ''dkey''"
    by (simp_all add: c starts_with_def)
  then have "handleSerialInput StringHelper_model example_definitions ''out'' example_device
               = out True False example_device"
    by (simp add: handleSerialInput_global c a global_commands_def isEqual_def isTrue_def)
  then have "serial (handleSerialInput StringHelper_model example_definitions ''out''
                       example_device)
               = [''OUT hkey1=2048 195'', ''OUT hkey2=2049 196'', ''OUT hkey3=2050 197'']"
    by (simp add: out_single example_out_lines) (simp add: example_device_def)
  then show ?thesis
    by simp
qed

subsection \<open>The \<^verbatim>\<open>char\<close> setting\<close>

text \<open>
  Claim C6 as the spec words it fails on the legacy variant, where the restriction to the
  bytes 97 to 122 is in the setter of the hall effect keys and the argument is only ever
  read as a number: \<open>key_char_legacy\<close> does not store the byte 65, and the line
  \<^verbatim>\<open>key1.char b\<close> does not bind the first key to the letter b (byte 98).
\<close>

theorem legacy_key_char_validates_hall_effect_keys:
  "keyChar (key_char_legacy (example_legacy_key 0) 65) \<noteq> 65
   \<and> keyChar (heKeys (config
        (handleSerialInput_legacy StringHelper_model example_legacy_env example_definitions
           ''key1.char b'' example_legacy_device)) 0) \<noteq> 98"
proof -
  have key: "starts_with (command_of StringHelper_model ''key1.char b'') ''key''"
    by (simp add: run_parse)
  have "keyChar (heKeys (config
        (handleSerialInput_legacy StringHelper_model example_legacy_env example_definitions
           ''key1.char b'' example_legacy_device)) 0) = 97"
    unfolding handleSerialInput_legacy_key [OF key]
    by (simp add: key_block_legacy_def for_keys_apply key_setting_legacy_def
          key_char_legacy_def HE_KEYS_def run_parse example_legacy_device_def
          example_legacy_key_def)
  then show ?thesis
    by (simp add: key_char_legacy_def example_legacy_key_def)
qed

text \<open>
  Claim C6, amended. In the current version the argument of \<^verbatim>\<open>char\<close> is the byte of the
  argument when that is a single character, and \<open>atoi\<close> of the argument narrowed to
  eight bits otherwise; \<open>key_char\<close> stores it in hall effect keys and digital keys with
  no validation. In the legacy variant the argument of \<^verbatim>\<open>key<N>.char\<close> is always
  \<open>atoi\<close> of the argument narrowed to eight bits, and the setter of the hall effect keys
  stores it only when it is between 97 and 122.
\<close>

theorem key_char_parsing_and_validation:
  "keyChar (key_char (key :: HEKey) c) = c
   \<and> keyChar (key_char (dkey :: Key) c) = c
   \<and> hkey_setting d ''char'' arg key = key_char key (word_of_int (char_arg arg))
   \<and> dkey_setting ''char'' arg dkey = key_char dkey (word_of_int (char_arg arg))
   \<and> char_arg [ch] = int (of_char ch)
   \<and> (length arg \<noteq> 1 \<longrightarrow> char_arg arg = atoi arg)
   \<and> key_setting_legacy d ''char'' arg lkey = key_char_legacy lkey (word_of_int (atoi arg))
   \<and> keyChar (key_char_legacy lkey c) = (if 97 \<le> uint c \<and> uint c \<le> 122 then c else keyChar lkey)"
  by (simp add: key_char_def hkey_setting_def dkey_setting_def key_setting_legacy_def
        isEqual_def char_arg_def key_char_legacy_def)

theorem key_char_parsing_and_validation_witness:
  "length ''66'' \<noteq> 1
   \<and> keyChar (hkey_setting example_definitions ''char'' ''66'' (example_hekey 0)) = 66
   \<and> keyChar (hkey_setting example_definitions ''char'' ''b'' (example_hekey 0)) = 98
   \<and> keyChar (key_setting_legacy example_definitions ''char'' ''66'' (example_legacy_key 0)) = 97"
proof -
  have l: "length ''66'' \<noteq> 1"
    by simp
  have n: "atoi ''66'' = 66" "atoi ''b'' = 0"
    by (simp_all add: atoi_def isspace_def isdigit_def)
  have b: "char_arg ''b'' = 98"
    using key_char_parsing_and_validation [where ch = "CHR ''b''"] by simp
  from key_char_parsing_and_validation
         [where key = "example_hekey 0" and c = 66 and d = example_definitions
            and arg = "''66''" and lkey = "example_legacy_key 0"]
       key_char_parsing_and_validation
         [where key = "example_hekey 0" and c = 98 and d = example_definitions
            and arg = "''b''" and lkey = "example_legacy_key 0"]
       l n b
  show ?thesis
    by (simp add: example_legacy_key_def)
qed

subsection \<open>The \<^verbatim>\<open>name\<close> command\<close>

text \<open>
  Claim C9. For every argument, \<^verbatim>\<open>name\<close> stores the argument as the device name when
  its length is between 1 and 128, and leaves the name as it was otherwise; a string of
  130 characters is rejected and changes nothing, a string of 5 characters is stored. In
  both versions the handler calls \<^verbatim>\<open>name\<close> with the parameters of the line when the
  command is \<^verbatim>\<open>name\<close>.
\<close>

theorem name_stored_iff_length_1_to_128:
  "name (config (SerialHandler_name n s)) =
     (if 1 \<le> length n \<and> length n \<le> 128 then n else name (config s))
   \<and> (length n = 130 \<longrightarrow> SerialHandler_name n s = s)
   \<and> (length m = 5 \<longrightarrow> name (config (SerialHandler_name m s)) = m)
   \<and> (command_of h line = ''name'' \<longrightarrow>
        handleSerialInput h d line s = SerialHandler_name (parameters_of h line) s)
   \<and> (command_of h line = ''name'' \<longrightarrow>
        handleSerialInput_legacy h e d line ls
          = SerialHandler_name (parameters_of_legacy h e line) ls)"
proof -
  have current: "handleSerialInput h d line s = SerialHandler_name (parameters_of h line) s"
    if c: "command_of h line = ''name''"
  proof -
    from c have "\<not> starts_with (command_of h line) ''hkey''"
      and "\<not> starts_with (command_of h line) ''dkey''"
      by (simp_all add: starts_with_def)
    then show ?thesis
      by (simp add: handleSerialInput_global c global_commands_def isEqual_def)
  qed
  have legacy: "handleSerialInput_legacy h e d line ls
                  = SerialHandler_name (parameters_of_legacy h e line) ls"
    if c: "command_of h line = ''name''"
  proof -
    from c have "\<not> starts_with (command_of h line) ''key''"
      and "\<not> starts_with (command_of h line) ''dkey''"
      by (simp_all add: starts_with_def)
    then show ?thesis
      by (simp add: handleSerialInput_legacy_global c global_commands_legacy_def isEqual_def)
  qed
  from current legacy show ?thesis
    by (simp add: SerialHandler_name_def)
qed

theorem name_stored_iff_length_1_to_128_witness:
  "length (replicate 130 CHR ''x'') = 130
   \<and> SerialHandler_name (replicate 130 CHR ''x'') example_device = example_device
   \<and> length ''hello'' = 5
   \<and> name (config (SerialHandler_name ''hello'' example_device)) = ''hello''
   \<and> command_of StringHelper_model ''name hello'' = ''name''
   \<and> name (config (handleSerialInput StringHelper_model example_definitions ''name hello''
        example_device)) = ''hello''"
proof -
  have l130: "length (replicate 130 CHR ''x'') = 130"
    by simp
  have l5: "length ''hello'' = 5"
    by simp
  have c: "command_of StringHelper_model ''name hello'' = ''name''"
    and p: "parameters_of StringHelper_model ''name hello'' = ''hello''"
    by (simp_all add: run_parse)
  from name_stored_iff_length_1_to_128
         [of "replicate 130 CHR ''x''" example_device "''hello''" StringHelper_model
             "''name hello''" example_definitions]
       l130 l5 c p
  show ?thesis
    by simp
qed

subsection \<open>What a setter leaves alone\<close>

text \<open>
  Claim C10. Every setter changes at most the field it is named after: the key it returns
  is the key it was given with that one field replaced, whether the value was accepted or
  not. This holds for the setters of the current version (on hall effect keys \<open>key\<close> and
  digital keys \<open>dkey\<close>) and for those of the legacy variant (\<open>lkey\<close>). A setter is
  handed one key only; at the level of the handler, a command with an explicit index
  leaves every key other than the one addressed, and all keys of the other kind, as they
  were.
\<close>

theorem setter_changes_only_its_field:
  "hkey_rt key b = key\<lparr>rapidTrigger := rapidTrigger (hkey_rt key b)\<rparr>
   \<and> hkey_crt key b = key\<lparr>continuousRapidTrigger := continuousRapidTrigger (hkey_crt key b)\<rparr>
   \<and> hkey_rtus d key v
       = key\<lparr>rapidTriggerUpSensitivity := rapidTriggerUpSensitivity (hkey_rtus d key v)\<rparr>
   \<and> hkey_rtds d key v
       = key\<lparr>rapidTriggerDownSensitivity := rapidTriggerDownSensitivity (hkey_rtds d key v)\<rparr>
   \<and> hkey_lh d key v = key\<lparr>lowerHysteresis := lowerHysteresis (hkey_lh d key v)\<rparr>
   \<and> hkey_uh d key v = key\<lparr>upperHysteresis := upperHysteresis (hkey_uh d key v)\<rparr>
   \<and> key_char key c = key\<lparr>keyChar := keyChar (key_char key c)\<rparr>
   \<and> key_hid key b = key\<lparr>hidEnabled := hidEnabled (key_hid key b)\<rparr>
   \<and> key_char dkey c = dkey\<lparr>keyChar := keyChar (key_char dkey c)\<rparr>
   \<and> key_hid dkey b = dkey\<lparr>hidEnabled := hidEnabled (key_hid dkey b)\<rparr>
   \<and> key_rt lkey b = lkey\<lparr>rapidTrigger := rapidTrigger (key_rt lkey b)\<rparr>
   \<and> key_crt lkey b = lkey\<lparr>continuousRapidTrigger := continuousRapidTrigger (key_crt lkey b)\<rparr>
   \<and> key_rtus d lkey v
       = lkey\<lparr>rapidTriggerUpSensitivity := rapidTriggerUpSensitivity (key_rtus d lkey v)\<rparr>
   \<and> key_rtds d lkey v
       = lkey\<lparr>rapidTriggerDownSensitivity := rapidTriggerDownSensitivity (key_rtds d lkey v)\<rparr>
   \<and> key_lh d lkey v = lkey\<lparr>lowerHysteresis := lowerHysteresis (key_lh d lkey v)\<rparr>
   \<and> key_uh d lkey v = lkey\<lparr>upperHysteresis := upperHysteresis (key_uh d lkey v)\<rparr>
   \<and> key_char_legacy lkey c = lkey\<lparr>keyChar := keyChar (key_char_legacy lkey c)\<rparr>
   \<and> key_rest d lkey v
       = lkey\<lparr>LegacyHEKey.restPosition := LegacyHEKey.restPosition (key_rest d lkey v)\<rparr>
   \<and> key_down lkey v
       = lkey\<lparr>LegacyHEKey.downPosition := LegacyHEKey.downPosition (key_down lkey v)\<rparr>
   \<and> key_hid_legacy lkey b = lkey\<lparr>hidEnabled := hidEnabled (key_hid_legacy lkey b)\<rparr>
   \<and> (starts_with (command_of h line) ''hkey''
        \<and> 4 < length (getArgumentAt h (command_of h line) CHR ''.'' 0)
        \<and> j \<noteq> unat (keyIndex 4 (getArgumentAt h (command_of h line) CHR ''.'' 0)) \<longrightarrow>
          heKeys (config (handleSerialInput h d line s)) j = heKeys (config s) j
          \<and> digitalKeys (config (handleSerialInput h d line s)) = digitalKeys (config s))
   \<and> (starts_with (command_of h line) ''dkey''
        \<and> 4 < length (getArgumentAt h (command_of h line) CHR ''.'' 0)
        \<and> j \<noteq> unat (keyIndex 4 (getArgumentAt h (command_of h line) CHR ''.'' 0)) \<longrightarrow>
          digitalKeys (config (handleSerialInput h d line s)) j = digitalKeys (config s) j
          \<and> heKeys (config (handleSerialInput h d line s)) = heKeys (config s))
   \<and> (starts_with (command_of h lline) ''key''
        \<and> 3 < length (getArgumentAt h (command_of h lline) CHR ''.'' 0)
        \<and> j \<noteq> unat (keyIndex 3 (getArgumentAt h (command_of h lline) CHR ''.'' 0)) \<longrightarrow>
          heKeys (config (handleSerialInput_legacy h e d lline ls)) j = heKeys (config ls) j
          \<and> digitalKeys (config (handleSerialInput_legacy h e d lline ls))
              = digitalKeys (config ls))"
proof -
  have current:
    "hkey_rt key b = key\<lparr>rapidTrigger := rapidTrigger (hkey_rt key b)\<rparr>"
    "hkey_crt key b = key\<lparr>continuousRapidTrigger := continuousRapidTrigger (hkey_crt key b)\<rparr>"
    "hkey_rtus d key v
       = key\<lparr>rapidTriggerUpSensitivity := rapidTriggerUpSensitivity (hkey_rtus d key v)\<rparr>"
    "hkey_rtds d key v
       = key\<lparr>rapidTriggerDownSensitivity := rapidTriggerDownSensitivity (hkey_rtds d key v)\<rparr>"
    "hkey_lh d key v = key\<lparr>lowerHysteresis := lowerHysteresis (hkey_lh d key v)\<rparr>"
    "hkey_uh d key v = key\<lparr>upperHysteresis := upperHysteresis (hkey_uh d key v)\<rparr>"
    "key_char key c = key\<lparr>keyChar := keyChar (key_char key c)\<rparr>"
    "key_hid key b = key\<lparr>hidEnabled := hidEnabled (key_hid key b)\<rparr>"
    "key_char dkey c = dkey\<lparr>keyChar := keyChar (key_char dkey c)\<rparr>"
    "key_hid dkey b = dkey\<lparr>hidEnabled := hidEnabled (key_hid dkey b)\<rparr>"
    by (simp_all add: hkey_rt_def hkey_crt_def hkey_rtus_def hkey_rtds_def hkey_lh_def
          hkey_uh_def key_char_def key_hid_def)
  have legacy:
    "key_rt lkey b = lkey\<lparr>rapidTrigger := rapidTrigger (key_rt lkey b)\<rparr>"
    "key_crt lkey b = lkey\<lparr>continuousRapidTrigger := continuousRapidTrigger (key_crt lkey b)\<rparr>"
    "key_rtus d lkey v
       = lkey\<lparr>rapidTriggerUpSensitivity := rapidTriggerUpSensitivity (key_rtus d lkey v)\<rparr>"
    "key_rtds d lkey v
       = lkey\<lparr>rapidTriggerDownSensitivity := rapidTriggerDownSensitivity (key_rtds d lkey v)\<rparr>"
    "key_lh d lkey v = lkey\<lparr>lowerHysteresis := lowerHysteresis (key_lh d lkey v)\<rparr>"
    "key_uh d lkey v = lkey\<lparr>upperHysteresis := upperHysteresis (key_uh d lkey v)\<rparr>"
    "key_char_legacy lkey c = lkey\<lparr>keyChar := keyChar (key_char_legacy lkey c)\<rparr>"
    "key_rest d lkey v
       = lkey\<lparr>LegacyHEKey.restPosition := LegacyHEKey.restPosition (key_rest d lkey v)\<rparr>"
    "key_down lkey v
       = lkey\<lparr>LegacyHEKey.downPosition := LegacyHEKey.downPosition (key_down lkey v)\<rparr>"
    "key_hid_legacy lkey b = lkey\<lparr>hidEnabled := hidEnabled (key_hid_legacy lkey b)\<rparr>"
    by (simp_all add: key_rt_def key_crt_def key_rtus_def key_rtds_def key_lh_def key_uh_def
          key_char_legacy_def key_rest_def key_down_def key_hid_legacy_def)
  have hkey:
    "heKeys (config (handleSerialInput h d line s)) j = heKeys (config s) j
     \<and> digitalKeys (config (handleSerialInput h d line s)) = digitalKeys (config s)"
    if "starts_with (command_of h line) ''hkey''"
      and "4 < length (getArgumentAt h (command_of h line) CHR ''.'' 0)"
      and "j \<noteq> unat (keyIndex 4 (getArgumentAt h (command_of h line) CHR ''.'' 0))"
    using that by (simp add: handleSerialInput_hkey hkey_block_def for_keys_apply Let_def)
  have dkey:
    "digitalKeys (config (handleSerialInput h d line s)) j = digitalKeys (config s) j
     \<and> heKeys (config (handleSerialInput h d line s)) = heKeys (config s)"
    if "starts_with (command_of h line) ''dkey''"
      and "4 < length (getArgumentAt h (command_of h line) CHR ''.'' 0)"
      and "j \<noteq> unat (keyIndex 4 (getArgumentAt h (command_of h line) CHR ''.'' 0))"
    using that by (simp add: handleSerialInput_dkey dkey_block_def for_keys_apply Let_def)
  have lkey:
    "heKeys (config (handleSerialInput_legacy h e d lline ls)) j = heKeys (config ls) j
     \<and> digitalKeys (config (handleSerialInput_legacy h e d lline ls))
         = digitalKeys (config ls)"
    if "starts_with (command_of h lline) ''key''"
      and "3 < length (getArgumentAt h (command_of h lline) CHR ''.'' 0)"
      and "j \<noteq> unat (keyIndex 3 (getArgumentAt h (command_of h lline) CHR ''.'' 0))"
    using that
    by (simp add: handleSerialInput_legacy_key key_block_legacy_def for_keys_apply Let_def)
  from current legacy hkey dkey lkey show ?thesis
    by blast
qed

theorem setter_changes_only_its_field_witness:
  "starts_with (command_of StringHelper_model ''hkey2.lh 150'') ''hkey''
   \<and> 4 < length (getArgumentAt StringHelper_model
                   (command_of StringHelper_model ''hkey2.lh 150'') CHR ''.'' 0)
   \<and> 0 \<noteq> unat (keyIndex 4 (getArgumentAt StringHelper_model
                   (command_of StringHelper_model ''hkey2.lh 150'') CHR ''.'' 0))
   \<and> heKeys (config (handleSerialInput StringHelper_model example_definitions
        ''hkey2.lh 150'' example_device)) 0 = example_hekey 0
   \<and> digitalKeys (config (handleSerialInput StringHelper_model example_definitions
        ''hkey2.lh 150'' example_device)) = example_dkey"
proof -
  have p: "starts_with (command_of StringHelper_model ''hkey2.lh 150'') ''hkey''"
    and l: "4 < length (getArgumentAt StringHelper_model
                   (command_of StringHelper_model ''hkey2.lh 150'') CHR ''.'' 0)"
    and i: "0 \<noteq> unat (keyIndex 4 (getArgumentAt StringHelper_model
                   (command_of StringHelper_model ''hkey2.lh 150'') CHR ''.'' 0))"
    by (simp_all add: run_parse)
  have ex: "heKeys (config example_device) = example_hekey"
    "digitalKeys (config example_device) = example_dkey"
    by (simp_all add: example_device_def)
  from setter_changes_only_its_field
         [where h = StringHelper_model and line = "''hkey2.lh 150''" and j = 0
            and d = example_definitions and s = example_device
            and key = "example_hekey 0" and dkey = "example_dkey 0"
            and lkey = "example_legacy_key 0" and b = True and v = 150 and c = 98
            and lline = "''key2.lh 150''" and e = example_legacy_env
            and ls = example_legacy_device]
       p l i
  show ?thesis
    unfolding ex by blast
qed

end
